theory Spec2Isabelle
  imports Complex_Main "HOL-Library.Sublist"
begin

section \<open>Python strings and lists\<close>

text \<open>
  A Python \<open>str\<close> is modelled as a \<open>string\<close>, a list of 8-bit characters read as the code
  points below 256. On these \<open>str.lower\<close> moves the capital letters \<open>A .. Z\<close> and
  \<open>0xC0 .. 0xDE\<close> (without the multiplication sign \<open>0xD7\<close>) up by 32 and leaves every
  other character as it is. All keywords of the program are ASCII.
\<close>

definition char_lower :: "char \<Rightarrow> char" where
  "char_lower c =
     (let n = (of_char c :: nat)
      in if (65 \<le> n \<and> n \<le> 90) \<or> (192 \<le> n \<and> n \<le> 222 \<and> n \<noteq> 215) then char_of (n + 32) else c)"

definition lower :: "string \<Rightarrow> string" where
  "lower s = map char_lower s"

text \<open>\<open>k in s\<close> on two strings: \<open>k\<close> occurs in \<open>s\<close> as a contiguous run.\<close>

fun str_in :: "string \<Rightarrow> string \<Rightarrow> bool" where
  "str_in k [] = (k = [])"
| "str_in k (c # cs) = (prefix k (c # cs) \<or> str_in k cs)"

text \<open>\<open>any(keyword in input_lower for keyword in keywords)\<close>\<close>

definition any_keyword_in :: "string list \<Rightarrow> string \<Rightarrow> bool" where
  "any_keyword_in keywords input_lower = list_ex (\<lambda>keyword. str_in keyword input_lower) keywords"

text \<open>
  \<open>str.strip()\<close> removes leading and trailing whitespace. Below 256 the whitespace
  characters (\<open>str.isspace\<close>) are the space, the controls \<open>0x09 .. 0x0D\<close>, the separators
  \<open>0x1C .. 0x1F\<close>, the next-line control \<open>0x85\<close> and the no-break space \<open>0xA0\<close>.
\<close>

definition is_space :: "char \<Rightarrow> bool" where
  "is_space c =
     (let n = (of_char c :: nat)
      in n = 32 \<or> (9 \<le> n \<and> n \<le> 13) \<or> (28 \<le> n \<and> n \<le> 31) \<or> n = 133 \<or> n = 160)"

definition strip :: "string \<Rightarrow> string" where
  "strip s = rev (dropWhile is_space (rev (dropWhile is_space s)))"

text \<open>\<open>sep.join(parts)\<close>\<close>

fun join :: "string \<Rightarrow> string list \<Rightarrow> string" where
  "join sep [] = []"
| "join sep [x] = x"
| "join sep (x # y # ys) = x @ sep @ join sep (y # ys)"

text \<open>\<open>xs[-n:]\<close> for a positive \<open>n\<close>: the last \<open>n\<close> elements, all of them when there are fewer.\<close>

definition last_n :: "nat \<Rightarrow> 'a list \<Rightarrow> 'a list" where
  "last_n n xs = drop (length xs - n) xs"

section \<open>Values, exceptions and collaborator calls\<close>

text \<open>
  The values of the free-form context map (\<open>Dict[str, Any]\<close>), with Python's truthiness and
  type names. Floating-point numbers are idealised as reals.
\<close>

datatype json = JNull | JBool bool | JInt int | JNum real | JStr string | JArr "json list"
  | JObj "(string \<times> json) list"

fun truthy :: "json \<Rightarrow> bool" where
  "truthy JNull = False"
| "truthy (JBool b) = b"
| "truthy (JInt i) = (i \<noteq> 0)"
| "truthy (JNum x) = (x \<noteq> 0)"
| "truthy (JStr s) = (s \<noteq> [])"
| "truthy (JArr xs) = (xs \<noteq> [])"
| "truthy (JObj kvs) = (kvs \<noteq> [])"

fun type_name :: "json \<Rightarrow> string" where
  "type_name JNull = ''NoneType''"
| "type_name (JBool b) = ''bool''"
| "type_name (JInt i) = ''int''"
| "type_name (JNum x) = ''float''"
| "type_name (JStr s) = ''str''"
| "type_name (JArr xs) = ''list''"
| "type_name (JObj kvs) = ''dict''"

type_synonym context_map = "(string \<times> json) list"

text \<open>
  Exceptions of the class \<open>Exception\<close>, the ones \<open>except Exception\<close> catches, with their
  messages. \<open>RequestException\<close> is the class the search tool catches by name; \<open>Exception\<close>
  stands for every other class.
\<close>

datatype py_exception =
  RequestException string | ZeroDivisionError | TypeError string | Exception string

text \<open>\<open>str(e)\<close>\<close>

fun exception_text :: "py_exception \<Rightarrow> string" where
  "exception_text (RequestException msg) = msg"
| "exception_text ZeroDivisionError = ''float division by zero''"
| "exception_text (TypeError msg) = msg"
| "exception_text (Exception msg) = msg"

text \<open>
  What a call can raise: an exception of the class \<open>Exception\<close>, or one outside it
  (\<open>KeyboardInterrupt\<close>, \<open>SystemExit\<close>, named by the string), which passes through every
  \<open>except Exception\<close>.
\<close>

datatype thrown = Exc py_exception | BaseExc string

record exchange =
  user :: string
  agent :: string
  timestamp :: real
  sources :: string

text \<open>The object \<open>_auto_save\<close> serialises into the session file.\<close>

record save_data =
  saved_conversation_memory :: "exchange list"
  saved_json_context :: context_map
  saved_timestamp :: real

text \<open>The body of the request the search tool posts.\<close>

record payload =
  q :: string
  num :: nat
  location :: "json option"

text \<open>
  Every call of the vector store, the web service, the language model and the file writer is
  recorded, in order.
\<close>

datatype event =
    SimilaritySearch string nat
  | HttpPost payload
  | GenerateContent string
  | FileWrite save_data

section \<open>RAGRetriever\<close>

record document =
  page_content :: string
  doc_metadata :: "(string \<times> string) list"

record hit =
  content :: string
  metadata :: "(string \<times> string) list"
  relevance_score :: real

text \<open>
  The vector store is a collaborator: \<open>similarity_search_with_score(query, k)\<close> either raises
  (an exception of the class \<open>Exception\<close>) or returns documents with their distances.
  \<open>vectorstore = None\<close> is the attribute being unset.
\<close>

type_synonym vectorstore = "string \<Rightarrow> nat \<Rightarrow> py_exception + (document \<times> real) list"

record rag_retriever =
  vectorstore :: "vectorstore option"

text \<open>
  \<open>RAGRetriever.retrieve\<close>: no vector store gives no hits; any exception of the search, and the
  division by zero of \<open>1 / (1 + score)\<close> at distance \<open>-1\<close>, is caught and gives no hits.
  The line it prints when it catches one is not part of the model.
\<close>

definition retrieve :: "rag_retriever \<Rightarrow> string \<Rightarrow> nat \<Rightarrow> hit list \<times> event list" where
  "retrieve self query k =
     (case vectorstore self of
        None \<Rightarrow> ([], [])
      | Some vs \<Rightarrow>
          (case vs query k of
             Inl e \<Rightarrow> ([], [SimilaritySearch query k])
           | Inr results \<Rightarrow>
               (if list_ex (\<lambda>(doc, score). 1 + score = 0) results
                then ([], [SimilaritySearch query k])
                else (map (\<lambda>(doc, score).
                        \<lparr>content = page_content doc, metadata = doc_metadata doc,
                         relevance_score = 1 / (1 + score)\<rparr>) results,
                      [SimilaritySearch query k]))))"

text \<open>
  \<open>RAGRetriever.get_context\<close>. The approximate token count of a hit is the length of its
  content divided by four, rounded down; only the content is counted.
\<close>

definition content_tokens :: "hit \<Rightarrow> int" where
  "content_tokens result = int (length (content result)) div 4"

definition format_hit :: "hit \<Rightarrow> string" where
  "format_hit result =
     ''[From '' @ (case map_of (metadata result) ''source'' of Some s \<Rightarrow> s | None \<Rightarrow> ''Unknown'')
       @ '']\<newline>'' @ content result"

fun context_loop :: "int \<Rightarrow> hit list \<Rightarrow> string list \<Rightarrow> int \<Rightarrow> string list" where
  "context_loop max_tokens [] context_parts token_count = context_parts"
| "context_loop max_tokens (result # rest) context_parts token_count =
     (if token_count + content_tokens result > max_tokens then context_parts
      else context_loop max_tokens rest (context_parts @ [format_hit result])
             (token_count + content_tokens result))"

definition separator :: string where
  "separator = ''\<newline>\<newline>---\<newline>\<newline>''"

definition get_context :: "rag_retriever \<Rightarrow> string \<Rightarrow> int \<Rightarrow> string \<times> event list" where
  "get_context self query max_tokens =
     (let (results, evs) = retrieve self query 5 in
        if results = [] then ('''', evs)
        else (join separator (context_loop max_tokens results [] 0), evs))"

section \<open>SmartSearchDecider\<close>

type_synonym topics = "(string \<times> string list) list"

definition stable_topics :: topics where
  "stable_topics =
    [(''process'', [''buying process'', ''selling process'', ''closing process'', ''mortgage process'']),
     (''definitions'', [''what is'', ''explain'', ''define'', ''how does'', ''how do'']),
     (''historical'', [''history'', ''established'', ''founded'', ''originally'']),
     (''features'', [''amenities'', ''characteristics'', ''features'', ''lifestyle'']),
     (''geography'', [''location'', ''boundaries'', ''distance'', ''area''])]"

definition dynamic_topics :: topics where
  "dynamic_topics =
    [(''market'', [''price'', ''rates'', ''market'', ''trends'', ''inventory'', ''sales'']),
     (''temporal'', [''current'', ''latest'', ''recent'', ''today'', ''now'', ''2024'', ''2025'']),
     (''statistics'', [''average'', ''median'', ''statistics'', ''data'', ''numbers'']),
     (''availability'', [''available'', ''for sale'', ''listings'', ''on market'']),
     (''news'', [''news'', ''announced'', ''update'', ''happening'', ''events''])]"

definition hybrid_topics :: topics where
  "hybrid_topics =
    [(''neighborhoods'', [''coral gables'', ''brickell'', ''wynwood'', ''aventura'', ''coconut grove'', ''south beach'']),
     (''comparison'', [''compare'', ''versus'', ''vs'', ''better'', ''difference'']),
     (''investment'', [''roi'', ''invest'', ''rental'', ''return'', ''yield'']),
     (''comprehensive'', [''tell me about'', ''overview'', ''guide'', ''everything''])]"

record decision =
  use_rag :: bool
  use_search :: bool
  rag_query :: string
  search_query :: string
  reasoning :: string

text \<open>
  Each of the three loops runs over a table in definition order and leaves it by \<open>break\<close> at
  the first category one of whose keywords occurs in the lowercased input.
\<close>

fun first_match :: "topics \<Rightarrow> string \<Rightarrow> string option" where
  "first_match [] input_lower = None"
| "first_match ((category, keywords) # rest) input_lower =
     (if any_keyword_in keywords input_lower then Some category else first_match rest input_lower)"

text \<open>\<open>self.hybrid_topics['neighborhoods']\<close>; the key is in the table.\<close>

definition topic_keywords :: "topics \<Rightarrow> string \<Rightarrow> string list" where
  "topic_keywords table category = (case map_of table category of Some ks \<Rightarrow> ks | None \<Rightarrow> [])"

definition check_stable :: "string \<Rightarrow> decision \<Rightarrow> bool \<times> decision" where
  "check_stable input_lower d =
     (case first_match stable_topics input_lower of
        None \<Rightarrow> (False, d)
      | Some category \<Rightarrow>
          (True, d\<lparr>use_rag := True,
                   reasoning := reasoning d @ ''RAG: '' @ category @ '' information is stable. ''\<rparr>))"

definition check_dynamic :: "string \<Rightarrow> string \<Rightarrow> decision \<Rightarrow> bool \<times> decision" where
  "check_dynamic user_input input_lower d =
     (case first_match dynamic_topics input_lower of
        None \<Rightarrow> (False, d)
      | Some category \<Rightarrow>
          (let d1 = d\<lparr>use_search := True,
                       reasoning := reasoning d @ ''Search: '' @ category @ '' requires current data. ''\<rparr>;
               d2 = (if category = ''market''
                     then d1\<lparr>search_query := user_input @ '' 2024 real estate Miami''\<rparr>
                     else if category = ''availability''
                     then d1\<lparr>search_query := user_input @ '' MLS listings''\<rparr>
                     else d1)
           in (True, d2)))"

definition check_hybrid :: "string \<Rightarrow> bool \<Rightarrow> bool \<Rightarrow> decision \<Rightarrow> decision" where
  "check_hybrid input_lower stable_match dynamic_match d =
     (case first_match hybrid_topics input_lower of
        None \<Rightarrow> d
      | Some category \<Rightarrow>
          (if category = ''neighborhoods'' \<and> dynamic_match then
             d\<lparr>use_rag := True, use_search := True,
               reasoning := reasoning d @ ''Both: Neighborhood details + current market. ''\<rparr>
           else if category = ''comparison'' then
             (let d1 = d\<lparr>use_rag := True\<rparr>;
                  d2 = (if \<not> stable_match then d1\<lparr>use_search := True\<rparr> else d1)
              in d2\<lparr>reasoning := reasoning d2 @ ''Both: Static features + current differences. ''\<rparr>)
           else if category = ''investment'' then
             d\<lparr>use_rag := True, use_search := True,
               reasoning := reasoning d @ ''Both: Investment strategies + current yields. ''\<rparr>
           else if category = ''comprehensive''
                   \<and> any_keyword_in (topic_keywords hybrid_topics ''neighborhoods'') input_lower then
             (let d1 = d\<lparr>use_rag := True\<rparr>;
                  d2 = (if dynamic_match then d1\<lparr>use_search := True\<rparr> else d1)
              in d2\<lparr>reasoning := reasoning d2 @ ''Comprehensive neighborhood information requested. ''\<rparr>)
           else d))"

text \<open>
  The default when the tables set no flag. \<open>rag_retriever\<close> is \<open>None\<close> when the caller
  supplies no retriever; otherwise the retriever is probed with the raw input at \<open>k = 1\<close>.
\<close>

definition default_decision :: "string \<Rightarrow> rag_retriever option \<Rightarrow> decision \<Rightarrow> decision \<times> event list" where
  "default_decision user_input retriever d =
     (if \<not> use_rag d \<and> \<not> use_search d then
        (case retriever of
           Some r \<Rightarrow>
             (let (test_results, evs) = retrieve r user_input 1 in
                (case test_results of
                   best # _ \<Rightarrow>
                     (if relevance_score best > 0.7
                      then (d\<lparr>use_rag := True, reasoning := ''RAG: High relevance content found. ''\<rparr>, evs)
                      else (d\<lparr>use_rag := True, reasoning := ''Default: Checking knowledge base first. ''\<rparr>, evs))
                 | [] \<Rightarrow>
                     (d\<lparr>use_rag := True, reasoning := ''Default: Checking knowledge base first. ''\<rparr>, evs)))
         | None \<Rightarrow>
             (d\<lparr>use_rag := True, reasoning := ''Default: General query, checking knowledge base. ''\<rparr>, []))
      else (d, []))"

definition tables_decision :: "string \<Rightarrow> decision" where
  "tables_decision user_input =
     (let input_lower = lower user_input;
          d0 = \<lparr>use_rag = False, use_search = False, rag_query = user_input,
                search_query = user_input, reasoning = ''''\<rparr>;
          (stable_match, d1) = check_stable input_lower d0;
          (dynamic_match, d2) = check_dynamic user_input input_lower d1
      in check_hybrid input_lower stable_match dynamic_match d2)"

definition analyze_query :: "string \<Rightarrow> rag_retriever option \<Rightarrow> decision \<times> event list" where
  "analyze_query user_input retriever =
     default_decision user_input retriever (tables_decision user_input)"

text \<open>The predicate of the claims: some category of the table has a keyword in the string.\<close>

definition matches_table :: "topics \<Rightarrow> string \<Rightarrow> bool" where
  "matches_table table s = list_ex (\<lambda>(category, keywords). any_keyword_in keywords s) table"

definition combine_contexts :: "string \<Rightarrow> string \<Rightarrow> string \<Rightarrow> string" where
  "combine_contexts rag_context search_context query_type =
     (if search_context = [] \<and> rag_context = [] then ''No relevant information found.''
      else if search_context = [] then ''Based on knowledge base:\<newline>'' @ rag_context
      else if rag_context = [] then ''Current information:\<newline>'' @ search_context
      else if str_in ''market'' query_type \<or> str_in ''price'' query_type then
        ''Market Analysis:\<newline>\<newline>Historical Context and Fundamentals:\<newline>'' @ rag_context
          @ ''\<newline>\<newline>Current Market Conditions:\<newline>'' @ search_context
      else if str_in ''neighborhood'' query_type then
        ''Comprehensive Information:\<newline>\<newline>Neighborhood Characteristics and Features:\<newline>''
          @ rag_context @ ''\<newline>\<newline>Recent Updates and Current Market:\<newline>'' @ search_context
      else
        ''Comprehensive Information:\<newline>\<newline>From Knowledge Base:\<newline>'' @ rag_context
          @ ''\<newline>\<newline>Current Information:\<newline>'' @ search_context)"

text \<open>The headers \<open>combine_contexts\<close> puts before the knowledge-base text and before the web text.\<close>

definition knowledge_base_headers :: "string list" where
  "knowledge_base_headers =
     [''Based on knowledge base:'', ''Historical Context and Fundamentals:'',
      ''Neighborhood Characteristics and Features:'', ''From Knowledge Base:'']"

definition web_data_headers :: "string list" where
  "web_data_headers =
     [''Current information:'', ''Current Market Conditions:'',
      ''Recent Updates and Current Market:'', ''Current Information:'']"

section \<open>SerperSearchTool\<close>

record organic_result =
  title :: "string option"
  snippet :: "string option"

text \<open>
  The decoded response of the search service, as far as the program reads it: whether it has
  an \<open>error\<close> key and what is under \<open>organic\<close>.
\<close>

record search_results =
  error :: "string option"
  organic :: "organic_result list option"

text \<open>
  The collaborators of one turn. \<open>http_post\<close> stands for the request, its status check and
  the decoding of the body; \<open>generate_content\<close> for the model call and the reading of
  \<open>response.text\<close>; \<open>json_dumps\<close> for \<open>json.dumps\<close> on the context map; \<open>print_line\<close>
  for \<open>print\<close> on the standard output, \<open>None\<close> when the line is written. Each may raise.
\<close>

record collaborators =
  http_post :: "payload \<Rightarrow> thrown + search_results"
  generate_content :: "string \<Rightarrow> thrown + string"
  json_dumps :: "context_map \<Rightarrow> thrown + string"
  print_line :: "string \<Rightarrow> thrown option"

text \<open>
  \<open>SerperSearchTool.search\<close> with the default \<open>num_results = 5\<close>: a \<open>RequestException\<close>
  is turned into an error result, anything else raised propagates.
\<close>

definition search :: "collaborators \<Rightarrow> string \<Rightarrow> json option \<Rightarrow> (thrown + search_results) \<times> event list" where
  "search c query loc =
     (let p = \<lparr>q = query, num = 5,
               location = (case loc of Some v \<Rightarrow> if truthy v then Some v else None | None \<Rightarrow> None)\<rparr>
      in (case http_post c p of
            Inl (Exc (RequestException msg)) \<Rightarrow>
              (Inr \<lparr>error = Some msg, organic = None\<rparr>, [HttpPost p])
          | Inl t \<Rightarrow> (Inl t, [HttpPost p])
          | Inr response \<Rightarrow> (Inr response, [HttpPost p])))"

section \<open>ConversationalRealEstateSystem\<close>

record system =
  rag :: rag_retriever
  json_context :: context_map
  conversation_memory :: "exchange list"
  system_prompt :: string

text \<open>
  \<open>_auto_save\<close>: the snapshot is handed to the file writer; whether the write succeeds or
  raises, nothing is reported and nothing else changes. \<open>now\<close> is the value of \<open>time.time()\<close>.
\<close>

definition auto_save :: "real \<Rightarrow> system \<Rightarrow> event list" where
  "auto_save now self =
     [FileWrite \<lparr>saved_conversation_memory = conversation_memory self,
                 saved_json_context = json_context self,
                 saved_timestamp = now\<rparr>]"

definition perform_search :: "collaborators \<Rightarrow> system \<Rightarrow> string \<Rightarrow> (thrown + search_results) \<times> event list" where
  "perform_search c self query = search c query (map_of (json_context self) ''location'')"

definition format_search_results :: "search_results \<Rightarrow> string" where
  "format_search_results results =
     (if error results \<noteq> None then ''''
      else
        (let formatted_results =
               (case organic results of
                  None \<Rightarrow> []
                | Some rs \<Rightarrow>
                    map (\<lambda>r. (case title r of Some t \<Rightarrow> t | None \<Rightarrow> '''') @ '': ''
                              @ (case snippet r of Some s \<Rightarrow> s | None \<Rightarrow> '''')) (take 3 rs))
         in if formatted_results \<noteq> [] then join ''\<newline>'' formatted_results else ''''))"

text \<open>\<open>_add_to_memory\<close>; \<open>now\<close> is the value of \<open>time.time()\<close>.\<close>

definition add_to_memory :: "exchange list \<Rightarrow> string \<Rightarrow> string \<Rightarrow> real \<Rightarrow> string \<Rightarrow> exchange list" where
  "add_to_memory memory user_msg agent_response now sources_used =
     (let memory1 = memory @ [\<lparr>user = user_msg, agent = agent_response, timestamp = now,
                               sources = sources_used\<rparr>]
      in if length memory1 > 20 then last_n 20 memory1 else memory1)"

text \<open>A sequence of calls of \<open>_add_to_memory\<close>, each with its arguments and its clock value.\<close>

fun add_all :: "exchange list \<Rightarrow> (string \<times> string \<times> real \<times> string) list \<Rightarrow> exchange list" where
  "add_all memory [] = memory"
| "add_all memory ((user_msg, agent_response, now, sources_used) # calls) =
     add_all (add_to_memory memory user_msg agent_response now sources_used) calls"

definition exchange_of :: "string \<times> string \<times> real \<times> string \<Rightarrow> exchange" where
  "exchange_of call =
     (case call of (user_msg, agent_response, now, sources_used) \<Rightarrow>
        \<lparr>user = user_msg, agent = agent_response, timestamp = now, sources = sources_used\<rparr>)"

definition exit_commands :: "string list" where
  "exit_commands = [''exit'', ''quit'', ''bye'', ''goodbye'']"

definition empty_input_reply :: string where
  "empty_input_reply = ''I'm here to help! What would you like to know about real estate?''"

definition farewell_reply :: string where
  "farewell_reply =
     ''Thanks for chatting! Feel free to reach out anytime for real estate help. Have a great day!''"

definition apology_reply :: string where
  "apology_reply =
     ''I apologize for the technical issue. Let me try to help you with that question again.''"

text \<open>
  The search query with the location of the context map appended when it is not already in
  it. A truthy location that is not a string makes \<open>not in\<close> raise a \<open>TypeError\<close>.
\<close>

definition located_query :: "system \<Rightarrow> string \<Rightarrow> thrown + string" where
  "located_query self search_query0 =
     (case map_of (json_context self) ''location'' of
        None \<Rightarrow> Inr search_query0
      | Some v \<Rightarrow>
          (if \<not> truthy v then Inr search_query0
           else (case v of
                   JStr loc \<Rightarrow>
                     (if \<not> str_in loc search_query0 then Inr (search_query0 @ '' '' @ loc)
                      else Inr search_query0)
                 | _ \<Rightarrow>
                     Inl (Exc (TypeError
                       ('''in <string>' requires string as left operand, not '' @ type_name v))))))"

definition search_step :: "collaborators \<Rightarrow> system \<Rightarrow> decision \<Rightarrow> (thrown + string) \<times> event list" where
  "search_step c self d =
     (if use_search d then
        (case located_query self (search_query d) of
           Inl e \<Rightarrow> (Inl e, [])
         | Inr query \<Rightarrow>
             (case perform_search c self query of
                (Inl e, evs) \<Rightarrow> (Inl e, evs)
              | (Inr results, evs) \<Rightarrow> (Inr (format_search_results results), evs)))
      else (Inr '''', []))"

definition recent_conversation :: "exchange list \<Rightarrow> string" where
  "recent_conversation memory =
     concat (map (\<lambda>exchange. ''\<newline>User: '' @ user exchange @ ''\<newline>Assistant: ''
                    @ take 200 (agent exchange) @ ''...'') (last_n 2 memory))"

definition build_prompt :: "system \<Rightarrow> string list \<Rightarrow> string \<Rightarrow> string \<Rightarrow> string \<Rightarrow> string" where
  "build_prompt self sources_used combined_context context_text user_input =
     system_prompt self
     @ ''\<newline>\<newline>Information Sources Used: ''
     @ (if sources_used \<noteq> [] then join '', '' sources_used else ''General Knowledge'')
     @ ''\<newline>\<newline>'' @ combined_context
     @ ''\<newline>\<newline>Recent Conversation:\<newline>''
     @ (if recent_conversation (conversation_memory self) \<noteq> []
        then recent_conversation (conversation_memory self)
        else ''This is the start of our conversation.'')
     @ ''\<newline>\<newline>Current Context: '' @ context_text
     @ ''\<newline>\<newline>User Question: '' @ user_input
     @ ''\<newline>\<newline>Instructions:\<newline>''
     @ ''- Provide a comprehensive, natural response using all available information\<newline>''
     @ ''- Be specific with numbers, prices, and data when available\<newline>''
     @ ''- If information comes from different time periods, blend them naturally\<newline>''
     @ ''- Maintain a helpful, professional tone\<newline>''
     @ ''- Don't mention sources explicitly unless asked''"

text \<open>
  The body of the \<open>try\<close> block of \<open>chat\<close>: the reply and the new state, or what is raised
  out of the block, with the collaborator calls made up to that point. The decision line is
  printed right after the classification.
\<close>

definition chat_try :: "collaborators \<Rightarrow> real \<Rightarrow> system \<Rightarrow> string \<Rightarrow> (thrown + string \<times> system) \<times> event list" where
  "chat_try c now self user_input =
     (let (d, evs1) = analyze_query user_input (Some (rag self)) in
      (case print_line c (''\<newline>[Decision: '' @ reasoning d @ '']'') of
         Some t \<Rightarrow> (Inl t, evs1)
       | None \<Rightarrow>
      (let (rag_context, evs2) =
             (if use_rag d then get_context (rag self) (rag_query d) 2000 else ('''', []));
           sources1 = (if rag_context \<noteq> [] then [''Knowledge Base''] else [])
       in (case search_step c self d of
            (Inl t, evs3) \<Rightarrow> (Inl t, evs1 @ evs2 @ evs3)
          | (Inr search_context, evs3) \<Rightarrow>
              (let sources_used =
                     sources1 @ (if search_context \<noteq> [] then [''Current Web Data''] else []);
                   combined_context = combine_contexts rag_context search_context (lower user_input)
               in (case (if json_context self \<noteq> [] then json_dumps c (json_context self)
                         else Inr ''General inquiry'') of
                     Inl t \<Rightarrow> (Inl t, evs1 @ evs2 @ evs3)
                   | Inr context_text \<Rightarrow>
                       (let prompt = build_prompt self sources_used combined_context context_text user_input
                        in (case generate_content c prompt of
                              Inl t \<Rightarrow> (Inl t, evs1 @ evs2 @ evs3 @ [GenerateContent prompt])
                            | Inr agent_response \<Rightarrow>
                                (Inr (agent_response,
                                      self\<lparr>conversation_memory :=
                                             add_to_memory (conversation_memory self) user_input
                                               agent_response now (join '', '' sources_used)\<rparr>),
                                 evs1 @ evs2 @ evs3 @ [GenerateContent prompt])))))))))"

text \<open>
  \<open>chat\<close>: \<open>Inr\<close> is a normal return with the reply, the new state and the collaborator calls
  of the turn; \<open>Inl\<close> is what is raised to the caller. The handler \<open>except Exception\<close> takes
  the exceptions of that class only; it prints the error line, outside any \<open>try\<close>, and
  then returns the apology.
\<close>

definition chat :: "collaborators \<Rightarrow> real \<Rightarrow> system \<Rightarrow> string \<Rightarrow> thrown + string \<times> system \<times> event list" where
  "chat c now self raw_input =
     (let user_input = strip raw_input in
        if user_input = [] then Inr (empty_input_reply, self, [])
        else if lower user_input \<in> set exit_commands then
          Inr (farewell_reply, self, auto_save now self)
        else
          (case chat_try c now self user_input of
             (Inr (agent_response, self1), evs) \<Rightarrow> Inr (agent_response, self1, evs)
           | (Inl (BaseExc b), evs) \<Rightarrow> Inl (BaseExc b)
           | (Inl (Exc e), evs) \<Rightarrow>
               (case print_line c (''Error in chat: '' @ exception_text e) of
                  Some t \<Rightarrow> Inl t
                | None \<Rightarrow> Inr (apology_reply, self, evs))))"

section \<open>Concrete collaborators used in the examples\<close>

definition small_store :: rag_retriever where
  "small_store =
     \<lparr>vectorstore = Some (\<lambda>query k.
        Inr [(\<lparr>page_content = ''abcd'', doc_metadata = [(''source'', ''a.txt'')]\<rparr>, 1 / 4)])\<rparr>"

definition failing_model :: collaborators where
  "failing_model =
     \<lparr>http_post = (\<lambda>p. Inl (Exc (RequestException ''timeout''))),
      generate_content = (\<lambda>prompt. Inl (Exc (Exception ''unavailable''))),
      json_dumps = (\<lambda>m. Inr ''{}''),
      print_line = (\<lambda>line. None)\<rparr>"


definition narrow_console :: collaborators where
  "narrow_console =
     \<lparr>http_post = (\<lambda>p. Inr \<lparr>error = None, organic = None\<rparr>),
      generate_content = (\<lambda>prompt. Inl (Exc (Exception ''quota exceeded''))),
      json_dumps = (\<lambda>m. Inr ''{}''),
      print_line = (\<lambda>line. if prefix ''Error in chat: '' line
                             then Some (Exc (Exception ''UnicodeEncodeError'')) else None)\<rparr>"

definition demo_system :: system where
  "demo_system =
     \<lparr>rag = small_store, json_context = [(''location'', JStr ''Miami-Dade County, FL'')],
      conversation_memory = [], system_prompt = ''You are Agent Mira.''\<rparr>"

definition demo_calls :: "(string \<times> string \<times> real \<times> string) list" where
  "demo_calls = map (\<lambda>i. (''question'', ''answer'', real i, ''Knowledge Base'')) [0..<25]"

section \<open>The classifier\<close>

lemma first_match_None_iff: "first_match table s = None \<longleftrightarrow> \<not> matches_table table s"
  by (induction table s rule: first_match.induct) (auto simp: matches_table_def)

lemma default_decision_flags:
  "use_rag d \<or> use_search d \<Longrightarrow> default_decision user_input r d = (d, [])"
  by (auto simp: default_decision_def)

lemma default_decision_none:
  "\<not> use_rag d \<Longrightarrow> \<not> use_search d \<Longrightarrow>
   use_rag (fst (default_decision user_input r d))
   \<and> \<not> use_search (fst (default_decision user_input r d))"
  by (auto simp: default_decision_def Let_def split: option.splits list.splits prod.splits)

lemma check_stable_hit:
  "matches_table stable_topics s \<Longrightarrow>
   fst (check_stable s d) \<and> use_rag (snd (check_stable s d))
   \<and> use_search (snd (check_stable s d)) = use_search d"
  using first_match_None_iff [of stable_topics s]
  by (auto simp: check_stable_def split: option.splits)

lemma check_stable_miss:
  "\<not> matches_table stable_topics s \<Longrightarrow> check_stable s d = (False, d)"
  using first_match_None_iff [of stable_topics s]
  by (auto simp: check_stable_def split: option.splits)

lemma check_dynamic_miss:
  "\<not> matches_table dynamic_topics s \<Longrightarrow> check_dynamic user_input s d = (False, d)"
  using first_match_None_iff [of dynamic_topics s]
  by (auto simp: check_dynamic_def split: option.splits)

lemma first_match_hybrid_investment:
  "first_match hybrid_topics s = Some ''investment'' \<Longrightarrow>
   any_keyword_in (topic_keywords hybrid_topics ''investment'') s"
  by (simp add: hybrid_topics_def topic_keywords_def split: if_splits)

lemma check_hybrid_stable_only:
  assumes "use_rag d" "\<not> use_search d"
    and "\<not> any_keyword_in (topic_keywords hybrid_topics ''investment'') s"
  shows "use_rag (check_hybrid s True False d) \<and> \<not> use_search (check_hybrid s True False d)"
  using assms first_match_hybrid_investment [of s]
  by (auto simp: check_hybrid_def Let_def split: option.splits)

lemma check_hybrid_miss:
  "\<not> matches_table hybrid_topics s \<Longrightarrow> check_hybrid s stable_match dynamic_match d = d"
  using first_match_None_iff [of hybrid_topics s]
  by (auto simp: check_hybrid_def split: option.splits)

text \<open>
  C1, as amended. For every query whose lowercased form contains a keyword of some stable
  category, no keyword of any dynamic category and no keyword of the hybrid category
  \<open>investment\<close>, \<open>analyze_query\<close> returns \<open>use_rag = True\<close> and \<open>use_search = False\<close>, whatever
  retriever is passed.
\<close>

theorem stable_without_investment_routes_to_rag:
  assumes "matches_table stable_topics (lower user_input)"
    and "\<not> matches_table dynamic_topics (lower user_input)"
    and "\<not> any_keyword_in (topic_keywords hybrid_topics ''investment'') (lower user_input)"
  shows "use_rag (fst (analyze_query user_input r))
         \<and> \<not> use_search (fst (analyze_query user_input r))"
proof -
  let ?d0 = "\<lparr>use_rag = False, use_search = False, rag_query = user_input,
              search_query = user_input, reasoning = ''''\<rparr>"
  obtain d1 where s: "check_stable (lower user_input) ?d0 = (True, d1)"
    and d1: "use_rag d1" "\<not> use_search d1"
    using check_stable_hit [OF assms(1), of ?d0]
    by (cases "check_stable (lower user_input) ?d0") auto
  have t: "tables_decision user_input = check_hybrid (lower user_input) True False d1"
    by (simp add: tables_decision_def Let_def s check_dynamic_miss [OF assms(2)])
  have "use_rag (tables_decision user_input) \<and> \<not> use_search (tables_decision user_input)"
    unfolding t using check_hybrid_stable_only [OF d1 assms(3)] .
  then show ?thesis
    by (simp add: analyze_query_def default_decision_flags)
qed

theorem stable_without_investment_routes_to_rag_witness:
  "matches_table stable_topics (lower ''What amenities does Wynwood offer?'')
   \<and> \<not> matches_table dynamic_topics (lower ''What amenities does Wynwood offer?'')
   \<and> \<not> any_keyword_in (topic_keywords hybrid_topics ''investment'')
         (lower ''What amenities does Wynwood offer?'')
   \<and> use_rag (fst (analyze_query ''What amenities does Wynwood offer?'' None))
   \<and> \<not> use_search (fst (analyze_query ''What amenities does Wynwood offer?'' None))"
proof -
  have a: "matches_table stable_topics (lower ''What amenities does Wynwood offer?'')"
    by code_simp
  have b: "\<not> matches_table dynamic_topics (lower ''What amenities does Wynwood offer?'')"
    by code_simp
  have c: "\<not> any_keyword_in (topic_keywords hybrid_topics ''investment'')
             (lower ''What amenities does Wynwood offer?'')"
    by code_simp
  show ?thesis
    using stable_without_investment_routes_to_rag [OF a b c, of None] a b c by simp
qed

text \<open>
  The claim as first stated fails at a query of the program's own test list: it has the
  stable keyword \<open>how do\<close> and no dynamic keyword, and the investment rule turns the web
  search on.
\<close>

theorem stable_with_investment_also_searches:
  "matches_table stable_topics (lower ''How do I calculate ROI for rental properties?'')
   \<and> \<not> matches_table dynamic_topics (lower ''How do I calculate ROI for rental properties?'')
   \<and> use_search (fst (analyze_query ''How do I calculate ROI for rental properties?'' None))"
  by code_simp

lemma compare_query_tables:
  "tables_decision ''Compare Brickell vs Aventura for investment'' =
     \<lparr>use_rag = False, use_search = False,
      rag_query = ''Compare Brickell vs Aventura for investment'',
      search_query = ''Compare Brickell vs Aventura for investment'', reasoning = ''''\<rparr>"
  by code_simp

lemma compare_query_first_hybrid:
  "first_match hybrid_topics (lower ''Compare Brickell vs Aventura for investment'')
     = Some ''neighborhoods''"
  by code_simp

text \<open>
  Two facts about the hybrid loop. Without a neighbourhood name the same comparison is
  routed to both sources; and the \<open>comprehensive\<close> rule, which asks for a neighbourhood
  name in the input, can never run, since such an input stops the loop at \<open>neighborhoods\<close>.
\<close>

lemma compare_without_neighborhood_gets_both:
  "use_rag (fst (analyze_query ''Compare condos vs houses for investment'' None))
   \<and> use_search (fst (analyze_query ''Compare condos vs houses for investment'' None))"
  by code_simp

lemma comprehensive_rule_unreachable:
  "first_match hybrid_topics s = Some ''comprehensive'' \<Longrightarrow>
   \<not> any_keyword_in (topic_keywords hybrid_topics ''neighborhoods'') s"
  by (simp add: hybrid_topics_def topic_keywords_def split: if_splits)

text \<open>
  C2. On \<open>Compare Brickell vs Aventura for investment\<close> the hybrid loop stops at its first
  category, \<open>neighborhoods\<close> (keyword \<open>brickell\<close>), whose rule needs a dynamic match that is
  absent; neither the comparison nor the investment rule runs, no flag is set by the tables
  and the default gives \<open>use_rag = True\<close>, \<open>use_search = False\<close>, whatever retriever is passed.
\<close>

theorem compare_query_gets_rag_only:
  "use_rag (fst (analyze_query ''Compare Brickell vs Aventura for investment'' r))
   \<and> \<not> use_search (fst (analyze_query ''Compare Brickell vs Aventura for investment'' r))"
  by (simp add: analyze_query_def compare_query_tables default_decision_none)

text \<open>
  C8. For every query in which no keyword of any of the three tables occurs,
  \<open>analyze_query\<close> returns \<open>use_rag = True\<close> and \<open>use_search = False\<close>, with no retriever,
  and with any retriever whatever its top hit's relevance.
\<close>

theorem no_match_defaults_to_rag:
  assumes "\<not> matches_table stable_topics (lower user_input)"
    and "\<not> matches_table dynamic_topics (lower user_input)"
    and "\<not> matches_table hybrid_topics (lower user_input)"
  shows "use_rag (fst (analyze_query user_input r))
         \<and> \<not> use_search (fst (analyze_query user_input r))"
proof -
  have "tables_decision user_input =
     \<lparr>use_rag = False, use_search = False, rag_query = user_input,
      search_query = user_input, reasoning = ''''\<rparr>"
    by (simp add: tables_decision_def Let_def check_stable_miss [OF assms(1)]
        check_dynamic_miss [OF assms(2)] check_hybrid_miss [OF assms(3)])
  then show ?thesis
    by (simp add: analyze_query_def default_decision_none)
qed

theorem no_match_defaults_to_rag_witness:
  "\<not> matches_table stable_topics (lower ''Hello there'')
   \<and> \<not> matches_table dynamic_topics (lower ''Hello there'')
   \<and> \<not> matches_table hybrid_topics (lower ''Hello there'')
   \<and> use_rag (fst (analyze_query ''Hello there'' (Some small_store)))
   \<and> \<not> use_search (fst (analyze_query ''Hello there'' (Some small_store)))
   \<and> use_rag (fst (analyze_query ''Hello there'' None))
   \<and> \<not> use_search (fst (analyze_query ''Hello there'' None))"
proof -
  have a: "\<not> matches_table stable_topics (lower ''Hello there'')" by code_simp
  have b: "\<not> matches_table dynamic_topics (lower ''Hello there'')" by code_simp
  have c: "\<not> matches_table hybrid_topics (lower ''Hello there'')" by code_simp
  show ?thesis
    using no_match_defaults_to_rag [OF a b c, of "Some small_store"]
      no_match_defaults_to_rag [OF a b c, of None] a b c by simp
qed

text \<open>
  C10. For every input and every retriever (none, one without a vector store, one whose
  search raises, one returning any hits), the decision of \<open>analyze_query\<close> has \<open>use_rag\<close> or
  \<open>use_search\<close> set.
\<close>

theorem some_source_enabled:
  "use_rag (fst (analyze_query user_input r)) \<or> use_search (fst (analyze_query user_input r))"
proof (cases "use_rag (tables_decision user_input) \<or> use_search (tables_decision user_input)")
  case True
  then show ?thesis by (simp add: analyze_query_def default_decision_flags)
next
  case False
  then show ?thesis using default_decision_none [of "tables_decision user_input" user_input r]
    by (simp add: analyze_query_def)
qed

theorem some_source_enabled_witness:
  "use_rag (fst (analyze_query ''Current mortgage rates in Miami'' (Some \<lparr>vectorstore = None\<rparr>)))
   \<or> use_search (fst (analyze_query ''Current mortgage rates in Miami'' (Some \<lparr>vectorstore = None\<rparr>)))"
  by (rule some_source_enabled)

section \<open>The token-budgeted context\<close>

lemma context_loop_prefix:
  "token_count \<le> max_tokens \<Longrightarrow>
   \<exists>n\<le>length results.
       context_loop max_tokens results parts token_count = parts @ map format_hit (take n results)
     \<and> token_count + sum_list (map content_tokens (take n results)) \<le> max_tokens
     \<and> (n < length results \<longrightarrow>
          max_tokens < token_count + sum_list (map content_tokens (take (Suc n) results)))"
proof (induction results arbitrary: parts token_count)
  case Nil
  then show ?case by simp
next
  case (Cons r rs)
  show ?case
  proof (cases "token_count + content_tokens r > max_tokens")
    case True
    then have "context_loop max_tokens (r # rs) parts token_count
          = parts @ map format_hit (take 0 (r # rs))
      \<and> token_count + sum_list (map content_tokens (take 0 (r # rs))) \<le> max_tokens
      \<and> (0 < length (r # rs) \<longrightarrow>
           max_tokens < token_count + sum_list (map content_tokens (take (Suc 0) (r # rs))))"
      using Cons.prems by simp
    then show ?thesis by blast
  next
    case False
    then have le: "token_count + content_tokens r \<le> max_tokens" by simp
    from Cons.IH [OF le, of "parts @ [format_hit r]"]
    obtain n where n: "n \<le> length rs"
      "context_loop max_tokens rs (parts @ [format_hit r]) (token_count + content_tokens r)
         = (parts @ [format_hit r]) @ map format_hit (take n rs)"
      "token_count + content_tokens r + sum_list (map content_tokens (take n rs)) \<le> max_tokens"
      "n < length rs \<longrightarrow>
         max_tokens < token_count + content_tokens r + sum_list (map content_tokens (take (Suc n) rs))"
      by blast
    have "Suc n \<le> length (r # rs)
      \<and> context_loop max_tokens (r # rs) parts token_count
          = parts @ map format_hit (take (Suc n) (r # rs))
      \<and> token_count + sum_list (map content_tokens (take (Suc n) (r # rs))) \<le> max_tokens
      \<and> (Suc n < length (r # rs) \<longrightarrow>
           max_tokens < token_count + sum_list (map content_tokens (take (Suc (Suc n)) (r # rs))))"
      using n False by (simp add: add.assoc)
    then show ?thesis by blast
  qed
qed

text \<open>
  C3, as amended. For every query, every non-negative budget and every list of hits the
  retriever returns, \<open>get_context\<close> returns the formatted texts of a prefix of the hits,
  joined by the separator: each hit is included whole or left out whole. The content token
  counts (content length divided by 4, rounded down) of the included hits sum to at most the
  budget, and the first hit left out would have taken the sum over it. When the content
  token count of the first hit alone exceeds the budget the result is the empty string.
  The tags, the separators and the rounding are outside the count.
\<close>

theorem get_context_budget:
  assumes "0 \<le> max_tokens"
  shows "\<exists>n\<le>length (fst (retrieve self query 5)).
      fst (get_context self query max_tokens)
        = join separator (map format_hit (take n (fst (retrieve self query 5))))
    \<and> sum_list (map content_tokens (take n (fst (retrieve self query 5)))) \<le> max_tokens
    \<and> (n < length (fst (retrieve self query 5)) \<longrightarrow>
         max_tokens < sum_list (map content_tokens (take (Suc n) (fst (retrieve self query 5)))))
    \<and> (\<forall>first rest. fst (retrieve self query 5) = first # rest \<and> max_tokens < content_tokens first
          \<longrightarrow> fst (get_context self query max_tokens) = '''')"
proof -
  obtain results evs where r: "retrieve self query 5 = (results, evs)"
    by (cases "retrieve self query 5")
  from context_loop_prefix [OF assms, of results "[]"]
  obtain n where n: "n \<le> length results"
    "context_loop max_tokens results [] 0 = map format_hit (take n results)"
    "sum_list (map content_tokens (take n results)) \<le> max_tokens"
    "n < length results \<longrightarrow> max_tokens < sum_list (map content_tokens (take (Suc n) results))"
    by auto
  have g: "fst (get_context self query max_tokens)
             = join separator (map format_hit (take n results))"
    using n(1,2) by (cases results) (simp_all add: get_context_def r)
  have f: "\<forall>first rest. results = first # rest \<and> max_tokens < content_tokens first
          \<longrightarrow> fst (get_context self query max_tokens) = ''''"
    by (auto simp: get_context_def r)
  show ?thesis using n g f by (auto simp: r)
qed

theorem get_context_budget_witness:
  "(0::int) \<le> 1
   \<and> (\<exists>n\<le>length (fst (retrieve small_store ''homes'' 5)).
        fst (get_context small_store ''homes'' 1)
          = join separator (map format_hit (take n (fst (retrieve small_store ''homes'' 5))))
      \<and> sum_list (map content_tokens (take n (fst (retrieve small_store ''homes'' 5)))) \<le> 1)
   \<and> (0::int) \<le> 0
   \<and> fst (retrieve small_store ''homes'' 5)
       = [\<lparr>content = ''abcd'', metadata = [(''source'', ''a.txt'')], relevance_score = 4 / 5\<rparr>]
   \<and> 0 < content_tokens
             \<lparr>content = ''abcd'', metadata = [(''source'', ''a.txt'')], relevance_score = 4 / 5\<rparr>
   \<and> fst (get_context small_store ''homes'' 0) = ''''"
proof -
  have h: "(0::int) \<le> 1" by simp
  have r: "fst (retrieve small_store ''homes'' 5)
       = [\<lparr>content = ''abcd'', metadata = [(''source'', ''a.txt'')], relevance_score = 4 / 5\<rparr>]"
    by (simp add: retrieve_def small_store_def)
  have t: "0 < content_tokens
             \<lparr>content = ''abcd'', metadata = [(''source'', ''a.txt'')], relevance_score = 4 / 5\<rparr>"
    by (simp add: content_tokens_def)
  have z: "fst (get_context small_store ''homes'' 0) = ''''"
    using get_context_budget [of 0 small_store "''homes''"] r t by blast
  show ?thesis
    using h get_context_budget [OF h, of small_store "''homes''"] r t z by blast
qed

text \<open>
  The claim as first stated fails: with a budget of one token and a single hit of four
  characters (one token), the returned text has seventeen characters, four tokens.
\<close>

theorem get_context_text_exceeds_budget:
  "(0::int) \<le> 1
   \<and> fst (get_context small_store ''homes'' 1) = ''[From a.txt]\<newline>abcd''
   \<and> \<not> int (length (fst (get_context small_store ''homes'' 1))) div 4 \<le> 1"
  by (simp add: get_context_def retrieve_def small_store_def content_tokens_def format_hit_def)

section \<open>The context combiner\<close>

text \<open>
  C5. For every topic hint \<open>x\<close>: two empty inputs give the fixed sentence; \<open>A\<close> alone gives a
  text that contains \<open>A\<close> and none of the web-data headers; \<open>B\<close> alone gives a text that
  contains \<open>B\<close> and none of the knowledge-base headers. In general one empty input gives
  exactly one header followed by the other, non-empty, input.
\<close>

theorem combine_contexts_single_source:
  "combine_contexts '''' '''' x = ''No relevant information found.''
   \<and> str_in ''A'' (combine_contexts ''A'' '''' x)
   \<and> \<not> list_ex (\<lambda>h. str_in h (combine_contexts ''A'' '''' x)) web_data_headers
   \<and> str_in ''B'' (combine_contexts '''' ''B'' x)
   \<and> \<not> list_ex (\<lambda>h. str_in h (combine_contexts '''' ''B'' x)) knowledge_base_headers
   \<and> (rag_context \<noteq> [] \<longrightarrow>
        combine_contexts rag_context '''' x = ''Based on knowledge base:\<newline>'' @ rag_context)
   \<and> (search_context \<noteq> [] \<longrightarrow>
        combine_contexts '''' search_context x = ''Current information:\<newline>'' @ search_context)"
  by (simp add: combine_contexts_def web_data_headers_def knowledge_base_headers_def)

theorem combine_contexts_single_source_witness:
  "combine_contexts ''Brickell is a dense urban district.'' '''' ''market price''
     = ''Based on knowledge base:\<newline>Brickell is a dense urban district.''
   \<and> combine_contexts '''' ''Rates rose this week.'' ''market price''
     = ''Current information:\<newline>Rates rose this week.''"
  using combine_contexts_single_source
    [of "''market price''" "''Brickell is a dense urban district.''" "''Rates rose this week.''"]
  by simp

section \<open>The conversation memory\<close>

lemma last_n_append_last_n: "last_n n (last_n n xs @ ys) = last_n n (xs @ ys)"
  by (cases "length xs \<le> n") (auto simp: last_n_def add.commute)

lemma add_to_memory_last_n:
  "add_to_memory memory u a t s = last_n 20 (memory @ [exchange_of (u, a, t, s)])"
  by (simp add: add_to_memory_def exchange_of_def Let_def last_n_def)

lemma add_all_last_n:
  "add_all memory calls =
     (if calls = [] then memory else last_n 20 (memory @ map exchange_of calls))"
proof (induction calls arbitrary: memory)
  case Nil
  then show ?case by simp
next
  case (Cons call calls)
  obtain u a t s where c: "call = (u, a, t, s)" by (cases call) auto
  show ?case
    using last_n_append_last_n [of 20 "memory @ [exchange_of call]" "map exchange_of calls"]
    by (simp add: c Cons.IH add_to_memory_last_n)
qed

text \<open>
  C4. Twenty-five calls of \<open>_add_to_memory\<close> from the empty memory leave the exchanges of
  the last twenty calls, in the order of the calls (and any number of calls leaves the last
  twenty, or all when fewer). After any single call, on any memory, the length is at most
  twenty and the memory is the last twenty entries of the old memory followed by the new
  exchange: entries leave from the old end.
\<close>

theorem memory_keeps_last_twenty:
  "(length calls = 25 \<longrightarrow> add_all [] calls = drop 5 (map exchange_of calls))
   \<and> add_all [] calls = last_n 20 (map exchange_of calls)
   \<and> length (add_to_memory memory u a t s) \<le> 20
   \<and> add_to_memory memory u a t s
       = last_n 20 (memory @ [\<lparr>user = u, agent = a, timestamp = t, sources = s\<rparr>])"
proof -
  have 1: "add_all [] calls = last_n 20 (map exchange_of calls)"
    by (simp add: add_all_last_n last_n_def)
  have 2: "length calls = 25 \<longrightarrow> add_all [] calls = drop 5 (map exchange_of calls)"
    by (simp add: 1 last_n_def)
  have 3: "length (add_to_memory memory u a t s) \<le> 20"
    by (simp add: add_to_memory_last_n last_n_def)
  have 4: "add_to_memory memory u a t s
       = last_n 20 (memory @ [\<lparr>user = u, agent = a, timestamp = t, sources = s\<rparr>])"
    by (simp add: add_to_memory_last_n exchange_of_def)
  show ?thesis using 1 2 3 4 by blast
qed

theorem memory_keeps_last_twenty_witness:
  "length demo_calls = 25
   \<and> map timestamp (add_all [] demo_calls) = map real [5..<25]"
proof -
  have l: "length demo_calls = 25" by (simp add: demo_calls_def)
  have "add_all [] demo_calls = drop 5 (map exchange_of demo_calls)"
    using memory_keeps_last_twenty [of demo_calls] l by blast
  then show ?thesis
    using l by (simp add: demo_calls_def exchange_of_def drop_map comp_def)
qed

section \<open>The turn\<close>

lemma is_space_char_lower: "is_space c \<Longrightarrow> char_lower c = c"
  by (auto simp: is_space_def char_lower_def Let_def)

lemma strip_id:
  assumes "s \<noteq> []" "\<not> is_space (hd s)" "\<not> is_space (last s)"
  shows "strip s = s"
proof -
  have a: "dropWhile is_space s = s"
    using assms(1,2) by (cases s) auto
  have b: "dropWhile is_space (rev s) = rev s"
    using assms(1,3) by (cases "rev s") (auto simp: hd_rev [symmetric])
  show ?thesis by (simp add: strip_def a b)
qed

lemma exit_command_ends:
  "l \<in> set exit_commands \<Longrightarrow> l \<noteq> [] \<and> \<not> is_space (hd l) \<and> \<not> is_space (last l)"
  by (auto simp: exit_commands_def is_space_def)

lemma strip_exit_command:
  assumes "lower raw_input \<in> set exit_commands"
  shows "strip raw_input = raw_input \<and> raw_input \<noteq> []"
proof -
  from exit_command_ends [OF assms]
  have l: "lower raw_input \<noteq> []" "\<not> is_space (hd (lower raw_input))"
    "\<not> is_space (last (lower raw_input))" by auto
  have ne: "raw_input \<noteq> []" using l(1) by (auto simp: lower_def)
  have h: "hd (lower raw_input) = char_lower (hd raw_input)"
    using ne by (simp add: lower_def hd_map)
  have t: "last (lower raw_input) = char_lower (last raw_input)"
    using ne by (simp add: lower_def last_map)
  have "\<not> is_space (hd raw_input)" using l(2) h is_space_char_lower by force
  moreover have "\<not> is_space (last raw_input)" using l(3) t is_space_char_lower by force
  ultimately show ?thesis using ne strip_id by simp
qed

text \<open>
  C7. For every input whose lowercased form is one of \<open>exit\<close>, \<open>quit\<close>, \<open>bye\<close>, \<open>goodbye\<close>,
  \<open>chat\<close> returns the farewell reply, leaves the state (and so the memory) as it was, and
  its only collaborator call is the write of the snapshot holding the current memory and
  context map: no vector-store search, no web request, no model call.
\<close>

theorem exit_command_saves_and_leaves:
  assumes "lower raw_input \<in> set exit_commands"
  shows "chat c now self raw_input =
     Inr (farewell_reply, self,
          [FileWrite \<lparr>saved_conversation_memory = conversation_memory self,
                      saved_json_context = json_context self, saved_timestamp = now\<rparr>])"
  using assms strip_exit_command [OF assms]
  by (simp add: chat_def auto_save_def)

theorem exit_command_saves_and_leaves_witness:
  "lower ''Bye'' \<in> set exit_commands
   \<and> chat failing_model 7 demo_system ''Bye'' =
       Inr (farewell_reply, demo_system,
            [FileWrite \<lparr>saved_conversation_memory = conversation_memory demo_system,
                        saved_json_context = json_context demo_system, saved_timestamp = 7\<rparr>])"
proof -
  have h: "lower ''Bye'' \<in> set exit_commands" by code_simp
  show ?thesis
    using h exit_command_saves_and_leaves [OF h, of failing_model 7 demo_system] by simp
qed








lemma chat_try_model_raises:
  assumes "\<forall>text. print_line c (''\<newline>[Decision: '' @ text @ '']'') = None"
    and "http_post c = (\<lambda>p. Inr r)" and "json_dumps c = (\<lambda>m. Inr j)"
    and "generate_content c = (\<lambda>prompt. Inl t)"
    and "\<exists>loc. map_of (json_context self) ''location'' = Some (JStr loc)"
  shows "fst (chat_try c now self user_input) = Inl t"
proof -
  obtain d evs1 where a: "analyze_query user_input (Some (rag self)) = (d, evs1)"
    by (cases "analyze_query user_input (Some (rag self))")
  obtain rc evs2 where
    g: "(if use_rag d then get_context (rag self) (rag_query d) 2000 else ('''', [])) = (rc, evs2)"
    by (cases "if use_rag d then get_context (rag self) (rag_query d) 2000 else ('''', [])")
  have "\<exists>x evs. search_step c self d = (Inr x, evs)"
  proof -
    from assms(5) obtain loc where "map_of (json_context self) ''location'' = Some (JStr loc)"
      by blast
    then have "\<exists>query. located_query self (search_query d) = Inr query"
      by (cases "loc = []"; cases "str_in loc (search_query d)") (simp_all add: located_query_def)
    then obtain query where "located_query self (search_query d) = Inr query" by blast
    then show ?thesis
      using assms(2) by (simp add: search_step_def perform_search_def search_def Let_def)
  qed
  then obtain x evs3 where s: "search_step c self d = (Inr x, evs3)" by blast
  have p: "print_line c (''\<newline>[Decision: '' @ reasoning d @ '']'') = None"
    using assms(1) by blast
  show ?thesis
    using p by (cases "json_context self = []") (simp_all add: chat_try_def Let_def a g s assms(3,4))
qed


text \<open>
  The error line of the handler is printed outside any \<open>try\<close>: when the language model
  raises an exception of the class \<open>Exception\<close> and the console cannot write that line, the
  console's exception is raised to the caller in place of the apology.
\<close>

lemma error_line_failure_reaches_caller:
  "chat narrow_console 7 demo_system ''Hello there'' = Inl (Exc (Exception ''UnicodeEncodeError''))"
proof -
  have a: "strip ''Hello there'' \<noteq> []" by code_simp
  have b: "lower (strip ''Hello there'') \<notin> set exit_commands" by code_simp
  have "fst (chat_try narrow_console 7 demo_system (strip ''Hello there''))
          = Inl (Exc (Exception ''quota exceeded''))"
    by (rule chat_try_model_raises) (simp_all add: narrow_console_def demo_system_def)
  then show ?thesis using a b
    by (cases "chat_try narrow_console 7 demo_system (strip ''Hello there'')")
       (simp add: chat_def narrow_console_def)
qed

end
